theory Spec2Isabelle
  imports Complex_Main "HOL-Library.Word"
begin

section \<open>Data model of the curation front end\<close>

text \<open>
  The repository holds the React front end of the anonymiser in several versions:
  \<^item> \<^verbatim>\<open>src/unnamed/part_000\<close>: the complete dashboard (toggle, edit, delete, group,
    manual insertion, select-all, document generation);
  \<^item> the \<^verbatim>\<open>App.js\<close> embedded in \<^verbatim>\<open>src/installation_guide.md\<close>: the revised dashboard
    (validated edit and grouping, guarded document generation, no manual insertion);
  \<^item> \<^verbatim>\<open>src/frontend/src/App.js\<close>: two reduced dashboards (toggle, select-all, generation).
  Constants without a suffix embed \<^verbatim>\<open>part_000\<close>; the suffix \<open>_guide\<close> marks the function of
  the same name in the guide's \<^verbatim>\<open>App.js\<close>.

  A JavaScript string is a sequence of UTF-16 code units.
\<close>

type_synonym jsstring = "16 word list"

text \<open>
  One element of \<^verbatim>\<open>positions\<close>: \<^verbatim>\<open>{ start, end }\<close>. The offsets are integers
  (\<^verbatim>\<open>parseInt\<close> of a numeric form field, or the integers of the wire schema).
  \<^verbatim>\<open>end\<close> is written \<open>end_pos\<close>.
\<close>

record position =
  start :: int
  end_pos :: int

text \<open>
  The detector an entity comes from: in the code one of the strings \<^verbatim>\<open>'REGEX'\<close>,
  \<^verbatim>\<open>'NER'\<close>, \<^verbatim>\<open>'OLLAMA'\<close> and \<^verbatim>\<open>'MANUAL'\<close>.
\<close>

datatype source = REGEX | NER | OLLAMA | MANUAL

text \<open>
  An entity object. The fields \<^verbatim>\<open>id\<close>, \<^verbatim>\<open>text\<close> and \<^verbatim>\<open>type\<close> are written
  \<open>eid\<close>, \<open>etext\<close> and \<open>etype\<close>; the type is the string the back end or the form sends.
\<close>

record entity =
  eid :: jsstring
  etext :: jsstring
  etype :: jsstring
  source :: source
  confidence :: real
  replacement :: jsstring
  positions :: "position list"
  selected :: bool

text \<open>The uploaded document, \<^verbatim>\<open>{ filename, content }\<close>.\<close>

record doc =
  filename :: jsstring
  content :: jsstring

text \<open>
  The component state the handlers read and write: \<^verbatim>\<open>entities\<close>, the ids ticked for
  grouping (\<^verbatim>\<open>selectedEntities\<close>) and the current \<^verbatim>\<open>document\<close> (\<^verbatim>\<open>null\<close> before an
  upload).
\<close>

record app =
  entities :: "entity list"
  selectedEntities :: "jsstring list"
  document :: "doc option"

section \<open>Store operations\<close>

subsection \<open>toggleEntity\<close>

text \<open>
  \<^verbatim>\<open>setEntities(entities.map(entity => entity.id === entityId
       ? { ...entity, selected: !entity.selected } : entity))\<close>
  (\<^verbatim>\<open>part_000\<close> 113-119, the same in both dashboards of \<^verbatim>\<open>frontend/src/App.js\<close> and in the
  guide).
\<close>

definition toggleEntity :: "jsstring \<Rightarrow> app \<Rightarrow> app" where
  "toggleEntity entityId st =
     st\<lparr>entities :=
          map (\<lambda>entity. if eid entity = entityId
                         then entity\<lparr>selected := \<not> selected entity\<rparr>
                         else entity)
              (entities st)\<rparr>"

subsection \<open>String.prototype.trim\<close>

text \<open>
  \<^verbatim>\<open>trim\<close> removes leading and trailing white space and line terminators: the code
  points TAB, LF, VT, FF, CR, SPACE, NBSP, U+1680, U+2000 to U+200A, U+2028, U+2029,
  U+202F, U+205F, U+3000 and U+FEFF, each a single code unit.
\<close>

definition isWhiteSpace :: "16 word \<Rightarrow> bool" where
  "isWhiteSpace c \<longleftrightarrow>
     c \<in> set [0x0009, 0x000A, 0x000B, 0x000C, 0x000D, 0x0020, 0x00A0, 0x1680,
              0x2000, 0x2001, 0x2002, 0x2003, 0x2004, 0x2005, 0x2006, 0x2007,
              0x2008, 0x2009, 0x200A, 0x2028, 0x2029, 0x202F, 0x205F, 0x3000, 0xFEFF]"

definition trim :: "jsstring \<Rightarrow> jsstring" where
  "trim s = rev (dropWhile isWhiteSpace (rev (dropWhile isWhiteSpace s)))"

subsection \<open>Early returns\<close>

text \<open>
  A handler that returns before calling \<^verbatim>\<open>setEntities\<close> leaves the state as it was. The
  model returns \<open>Inl\<close> with the reason for each such return, and \<open>Inr\<close> with the new state
  (or the request sent) otherwise.
\<close>

datatype rejection =
    EmptyReplacement   \<comment> \<open>alert: "Le remplacement ne peut pas etre vide"\<close>
  | NeedTwoEntities    \<comment> \<open>alert: "Selectionnez au moins 2 entites pour creer un groupe"\<close>
  | NoGroupName        \<comment> \<open>the prompt was cancelled or its answer is falsy; no alert\<close>
  | NoEntities         \<comment> \<open>alert: "Aucune entite a traiter pour la generation du document"\<close>
  | NoneSelected       \<comment> \<open>alert: "Selectionnez au moins une entite a anonymiser"\<close>
  | GenerationError    \<comment> \<open>an exception inside \<^verbatim>\<open>try\<close>, caught and reported by alert\<close>

subsection \<open>updateEntityReplacement\<close>

text \<open>
  \<^verbatim>\<open>part_000\<close> 121-127: no check of \<^verbatim>\<open>newReplacement\<close>.
  \<^verbatim>\<open>setEntities(entities.map(entity => entity.id === entityId
       ? { ...entity, replacement: newReplacement } : entity))\<close>
\<close>

definition updateEntityReplacement :: "jsstring \<Rightarrow> jsstring \<Rightarrow> app \<Rightarrow> app" where
  "updateEntityReplacement entityId newReplacement st =
     st\<lparr>entities :=
          map (\<lambda>entity. if eid entity = entityId
                         then entity\<lparr>replacement := newReplacement\<rparr>
                         else entity)
              (entities st)\<rparr>"

text \<open>
  \<^verbatim>\<open>installation_guide.md\<close> 508-519:
  \<^verbatim>\<open>if (!newReplacement || newReplacement.trim() === '') { alert(...); return; }\<close>
  and the stored value is \<^verbatim>\<open>newReplacement.trim()\<close>.
\<close>

definition updateEntityReplacement_guide ::
  "jsstring \<Rightarrow> jsstring \<Rightarrow> app \<Rightarrow> rejection + app" where
  "updateEntityReplacement_guide entityId newReplacement st =
     (if newReplacement = [] \<or> trim newReplacement = [] then Inl EmptyReplacement
      else Inr (st\<lparr>entities :=
                  map (\<lambda>entity. if eid entity = entityId
                                 then entity\<lparr>replacement := trim newReplacement\<rparr>
                                 else entity)
                      (entities st)\<rparr>))"

subsection \<open>deleteEntity\<close>

text \<open>
  \<^verbatim>\<open>if (window.confirm(...)) { setEntities(entities.filter(entity => entity.id !== entityId)); }\<close>
  (\<^verbatim>\<open>part_000\<close> 129-133). The operator's answer to the dialog is the argument
  \<open>confirmed\<close>.
\<close>

definition deleteEntity :: "bool \<Rightarrow> jsstring \<Rightarrow> app \<Rightarrow> app" where
  "deleteEntity confirmed entityId st =
     (if confirmed
      then st\<lparr>entities := filter (\<lambda>entity. eid entity \<noteq> entityId) (entities st)\<rparr>
      else st)"

text \<open>
  \<^verbatim>\<open>installation_guide.md\<close> 521-527 also drops the id from the grouping selection:
  \<^verbatim>\<open>setSelectedEntities(selectedEntities.filter(id => id !== entityId))\<close>.
\<close>

definition deleteEntity_guide :: "bool \<Rightarrow> jsstring \<Rightarrow> app \<Rightarrow> app" where
  "deleteEntity_guide confirmed entityId st =
     (if confirmed
      then st\<lparr>entities := filter (\<lambda>entity. eid entity \<noteq> entityId) (entities st),
              selectedEntities := filter (\<lambda>i. i \<noteq> entityId) (selectedEntities st)\<rparr>
      else st)"

subsection \<open>createGroup\<close>

text \<open>
  \<^verbatim>\<open>part_000\<close> 135-151. The ids are the ticked ones, \<^verbatim>\<open>selectedEntities\<close>; the shared
  replacement is the answer to \<^verbatim>\<open>prompt('Nom du groupe:')\<close>, \<^verbatim>\<open>null\<close> (here \<open>None\<close>) when
  the dialog is cancelled. \<^verbatim>\<open>if (groupReplacement)\<close> is false for \<^verbatim>\<open>null\<close> and for the
  empty string.
\<close>

definition createGroup :: "jsstring option \<Rightarrow> app \<Rightarrow> rejection + app" where
  "createGroup groupReplacement st =
     (if length (selectedEntities st) < 2 then Inl NeedTwoEntities
      else case groupReplacement of
             None \<Rightarrow> Inl NoGroupName
           | Some g \<Rightarrow>
               if g = [] then Inl NoGroupName
               else Inr (st\<lparr>entities :=
                           map (\<lambda>entity. if eid entity \<in> set (selectedEntities st)
                                          then entity\<lparr>replacement := g\<rparr>
                                          else entity)
                               (entities st),
                          selectedEntities := []\<rparr>))"

text \<open>
  \<^verbatim>\<open>installation_guide.md\<close> 529-545: the test is
  \<^verbatim>\<open>groupReplacement && groupReplacement.trim()\<close> and the stored value is
  \<^verbatim>\<open>groupReplacement.trim()\<close>.
\<close>

definition createGroup_guide :: "jsstring option \<Rightarrow> app \<Rightarrow> rejection + app" where
  "createGroup_guide groupReplacement st =
     (if length (selectedEntities st) < 2 then Inl NeedTwoEntities
      else case groupReplacement of
             None \<Rightarrow> Inl NoGroupName
           | Some g \<Rightarrow>
               if g = [] \<or> trim g = [] then Inl NoGroupName
               else Inr (st\<lparr>entities :=
                           map (\<lambda>entity. if eid entity \<in> set (selectedEntities st)
                                          then entity\<lparr>replacement := trim g\<rparr>
                                          else entity)
                               (entities st),
                          selectedEntities := []\<rparr>))"

subsection \<open>addManualEntity\<close>

text \<open>
  \<^verbatim>\<open>part_000\<close> 153-166. The new object is built from the arguments and appended:
  \<^verbatim>\<open>setEntities([...entities, newEntity])\<close>. There is no test and no early return. The
  argument \<open>now\<close> is the value of \<^verbatim>\<open>Date.now().toString()\<close>.
\<close>

definition addManualEntity ::
  "jsstring \<Rightarrow> jsstring \<Rightarrow> jsstring \<Rightarrow> jsstring \<Rightarrow> int \<Rightarrow> int \<Rightarrow> app \<Rightarrow> app" where
  "addManualEntity now txt typ repl startPos endPos st =
     (let newEntity = \<lparr>eid = now, etext = txt, etype = typ, source = MANUAL,
                       confidence = 1, replacement = repl,
                       positions = [\<lparr>start = startPos, end_pos = endPos\<rparr>],
                       selected = True\<rparr>
      in st\<lparr>entities := entities st @ [newEntity]\<rparr>)"

subsection \<open>The select-all button\<close>

text \<open>
  \<^verbatim>\<open>const allSelected = entities.every(e => e.selected);
  setEntities(entities.map(e => ({ ...e, selected: !allSelected })));\<close>
  (\<^verbatim>\<open>part_000\<close> 469-477, \<^verbatim>\<open>frontend/src/App.js\<close> 571-579).
\<close>

definition selectAll :: "app \<Rightarrow> app" where
  "selectAll st =
     (let allSelected = list_all selected (entities st)
      in st\<lparr>entities := map (\<lambda>e. e\<lparr>selected := \<not> allSelected\<rparr>) (entities st)\<rparr>)"

subsection \<open>generateDocument\<close>

text \<open>The body of the POST to \<^verbatim>\<open>/generate-document\<close>.\<close>

record request =
  req_entities :: "entity list"
  original_content :: jsstring
  req_filename :: jsstring

text \<open>
  \<^verbatim>\<open>`${document.filename.split('.')[0]}_anonymise.docx`\<close>: the file name up to its first
  dot, followed by the suffix.
\<close>

definition anonymise_suffix :: jsstring where
  "anonymise_suffix = [0x5F, 0x61, 0x6E, 0x6F, 0x6E, 0x79, 0x6D, 0x69, 0x73, 0x65,
                       0x2E, 0x64, 0x6F, 0x63, 0x78]"

definition output_filename :: "jsstring \<Rightarrow> jsstring" where
  "output_filename f = takeWhile (\<lambda>c. c \<noteq> 0x2E) f @ anonymise_suffix"

text \<open>
  \<^verbatim>\<open>installation_guide.md\<close> 437-498, up to the moment the request is sent. The two guards
  return before anything is sent. With no document loaded, reading
  \<^verbatim>\<open>document.content\<close> throws inside \<^verbatim>\<open>try\<close> and nothing is sent either.
\<close>

definition generateDocument_guide :: "app \<Rightarrow> rejection + request" where
  "generateDocument_guide st =
     (if length (entities st) = 0 then Inl NoEntities
      else let selectedCount = length (filter selected (entities st))
           in if selectedCount = 0 then Inl NoneSelected
              else case document st of
                     None \<Rightarrow> Inl GenerationError
                   | Some d \<Rightarrow>
                       Inr \<lparr>req_entities = entities st,
                            original_content = content d,
                            req_filename = output_filename (filename d)\<rparr>)"

section \<open>Span geometry\<close>

text \<open>
  A span is the half-open range \<open>[start, end)\<close>. Two spans overlap when they share an
  offset.
\<close>

definition overlaps :: "position \<Rightarrow> position \<Rightarrow> bool" where
  "overlaps p q \<longleftrightarrow> max (start p) (start q) < min (end_pos p) (end_pos q)"

fun pairwise_disjoint :: "position list \<Rightarrow> bool" where
  "pairwise_disjoint [] = True"
| "pairwise_disjoint (p # ps) = ((\<forall>q \<in> set ps. \<not> overlaps p q) \<and> pairwise_disjoint ps)"

definition all_spans :: "entity list \<Rightarrow> position list" where
  "all_spans es = concat (map positions es)"

definition selected_spans :: "entity list \<Rightarrow> position list" where
  "selected_spans es = concat (map positions (filter selected es))"

text \<open>Invariant 2 of the data model: the spans of the selected entities are pairwise
  non-overlapping.\<close>

definition selection_disjoint :: "app \<Rightarrow> bool" where
  "selection_disjoint st \<longleftrightarrow> pairwise_disjoint (selected_spans (entities st))"

text \<open>What the reconciler delivers: the spans of all entities are pairwise
  non-overlapping.\<close>

definition all_disjoint :: "app \<Rightarrow> bool" where
  "all_disjoint st \<longleftrightarrow> pairwise_disjoint (all_spans (entities st))"

section \<open>DocumentRewriter\<close>

text \<open>
  The rewriter runs in the back end (\<^verbatim>\<open>server.py\<close>), which is not among the sources; the
  front end only posts the entities and the original content to
  \<^verbatim>\<open>/generate-document\<close>. The definitions of this section follow section 4.5 of the
  specification step by step.
\<close>

text \<open>Modelled from the spec: the error of the rewriter's defensive overlap check; the
  rewriter itself is missing from the sources.\<close>

datatype rewrite_error = OverlapError

type_synonym triple = "int \<times> int \<times> jsstring"

text \<open>Modelled from the spec: step 1 of the missing rewriter. Collect all positions of the
  entities with \<open>selected = true\<close>, flattened to one \<open>(start, end, replacement)\<close> triple per
  occurrence.\<close>

definition collect_triples :: "entity list \<Rightarrow> triple list" where
  "collect_triples es =
     concat (map (\<lambda>e. map (\<lambda>p. (start p, end_pos p, replacement e)) (positions e))
                 (filter selected es))"

text \<open>Modelled from the spec: the span of a triple of the missing rewriter.\<close>

definition triple_span :: "triple \<Rightarrow> position" where
  "triple_span t = \<lparr>start = fst t, end_pos = fst (snd t)\<rparr>"

text \<open>Modelled from the spec: step 3 of the missing rewriter. One pass from left to right
  over the sorted triples: copy the original text from the cursor to the next span, put
  the replacement for the span, go on after the span; after the last span copy the rest.\<close>

fun build :: "jsstring \<Rightarrow> int \<Rightarrow> triple list \<Rightarrow> jsstring" where
  "build originalText cursor [] = drop (nat cursor) originalText"
| "build originalText cursor ((s, e, r) # ts) =
     take (nat (s - cursor)) (drop (nat cursor) originalText) @ r @ build originalText e ts"

text \<open>Modelled from the spec: the missing \<open>rewrite(originalText, entities)\<close>. Sort the
  triples by \<open>start\<close> (step 2), fail with \<open>OverlapError\<close> if two of the spans overlap,
  build the text (step 3) and return it with the change log, the list of spans with their
  replacements (step 4).\<close>

definition rewrite ::
  "jsstring \<Rightarrow> entity list \<Rightarrow> rewrite_error + (jsstring \<times> (position \<times> jsstring) list)" where
  "rewrite originalText es =
     (let ts = sort_key fst (collect_triples es)
      in if \<not> pairwise_disjoint (map triple_span ts) then Inl OverlapError
         else Inr (build originalText 0 ts, map (\<lambda>t. (triple_span t, snd (snd t))) ts))"

section \<open>Vocabulary of the store contract\<close>

text \<open>
  The validation the specification asks of manual insertion, in its words:
  \<open>0 \<le> start < end \<le> len(document)\<close>, \<open>document[start:end] = text\<close>, and \<open>[start, end)\<close>
  overlaps no position of an existing entity. It is stated here to be compared with
  \<open>addManualEntity\<close>, which has no such test.
\<close>

definition manual_span_valid :: "jsstring \<Rightarrow> entity list \<Rightarrow> jsstring \<Rightarrow> int \<Rightarrow> int \<Rightarrow> bool" where
  "manual_span_valid d es txt s e \<longleftrightarrow>
     0 \<le> s \<and> s < e \<and> e \<le> int (length d)
     \<and> take (nat (e - s)) (drop (nat s) d) = txt
     \<and> (\<forall>q \<in> set (all_spans es). \<not> overlaps \<lparr>start = s, end_pos = e\<rparr> q)"

text \<open>
  \<open>es'\<close> is \<open>es\<close> with the replacement \<open>v\<close> set on exactly the entities whose id is among
  \<open>ids\<close>: entity by entity, in the same order, either the updated one or the untouched
  one.
\<close>

definition replaced_exactly ::
  "jsstring list \<Rightarrow> jsstring \<Rightarrow> entity list \<Rightarrow> entity list \<Rightarrow> bool" where
  "replaced_exactly ids v es es' \<longleftrightarrow>
     list_all2 (\<lambda>e e'. e' = (if eid e \<in> set ids then e\<lparr>replacement := v\<rparr> else e)) es es'"

section \<open>A sample session\<close>

text \<open>The type names \<^verbatim>\<open>"phone"\<close> and \<^verbatim>\<open>"person"\<close>, and a reading of the clock,
  \<^verbatim>\<open>"1730000000000"\<close>, as the id of a manual entity.\<close>

definition phone :: jsstring where
  "phone = [0x70, 0x68, 0x6F, 0x6E, 0x65]"

definition person :: jsstring where
  "person = [0x70, 0x65, 0x72, 0x73, 0x6F, 0x6E]"

definition ex_now :: jsstring where
  "ex_now = [0x31, 0x37, 0x33, 0x30, 0x30, 0x30, 0x30, 0x30, 0x30, 0x30, 0x30, 0x30, 0x30]"

text \<open>
  The document \<^verbatim>\<open>"ab cd"\<close> (file \<^verbatim>\<open>a.txt\<close>) with two entities: \<^verbatim>\<open>"ab"\<close> at \<open>[0, 2)\<close>, id
  \<^verbatim>\<open>"1"\<close>, replacement \<^verbatim>\<open>"[T]"\<close>, found by a pattern and selected; and \<^verbatim>\<open>"cd"\<close> at
  \<open>[3, 5)\<close>, id \<^verbatim>\<open>"2"\<close>, replacement \<^verbatim>\<open>"[P]"\<close>, found by the statistical detector and
  not selected. Both are ticked for grouping.
\<close>

definition ex_doc :: doc where
  "ex_doc = \<lparr>filename = [0x61, 0x2E, 0x74, 0x78, 0x74],
             content = [0x61, 0x62, 0x20, 0x63, 0x64]\<rparr>"

definition ex_ab :: entity where
  "ex_ab = \<lparr>eid = [0x31], etext = [0x61, 0x62], etype = phone, source = REGEX,
            confidence = 1, replacement = [0x5B, 0x54, 0x5D],
            positions = [\<lparr>start = 0, end_pos = 2\<rparr>], selected = True\<rparr>"

definition ex_cd :: entity where
  "ex_cd = \<lparr>eid = [0x32], etext = [0x63, 0x64], etype = person, source = NER,
            confidence = 9 / 10, replacement = [0x5B, 0x50, 0x5D],
            positions = [\<lparr>start = 3, end_pos = 5\<rparr>], selected = False\<rparr>"

definition ex_app :: app where
  "ex_app = \<lparr>entities = [ex_ab, ex_cd], selectedEntities = [[0x31], [0x32]],
             document = Some ex_doc\<rparr>"

text \<open>
  The same session after the operator has added by hand the entity \<^verbatim>\<open>"b "\<close> at \<open>[1, 3)\<close>
  with the replacement \<^verbatim>\<open>"X"\<close>: the text is what the document holds there, and the span
  runs into \<^verbatim>\<open>"ab"\<close> at \<open>[0, 2)\<close>.
\<close>

definition ex_manual :: app where
  "ex_manual = addManualEntity ex_now [0x62, 0x20] person [0x58] 1 3 ex_app"

section \<open>Properties\<close>

subsection \<open>Auxiliary facts about spans\<close>

lemma overlaps_iff_common_offset:
  "overlaps p q \<longleftrightarrow> {start p ..< end_pos p} \<inter> {start q ..< end_pos q} \<noteq> {}"
proof
  assume "overlaps p q"
  then have "max (start p) (start q) \<in> {start p ..< end_pos p} \<inter> {start q ..< end_pos q}"
    by (simp add: overlaps_def)
  then show "{start p ..< end_pos p} \<inter> {start q ..< end_pos q} \<noteq> {}"
    by blast
next
  assume "{start p ..< end_pos p} \<inter> {start q ..< end_pos q} \<noteq> {}"
  then obtain x where "x \<in> {start p ..< end_pos p} \<inter> {start q ..< end_pos q}"
    by blast
  then have "start p \<le> x" "x < end_pos p" "start q \<le> x" "x < end_pos q"
    by simp_all
  then show "overlaps p q"
    by (simp add: overlaps_def)
qed

lemma overlaps_commute: "overlaps p q \<longleftrightarrow> overlaps q p"
  by (auto simp: overlaps_def)

lemma pairwise_disjoint_append:
  "pairwise_disjoint (xs @ ys) \<longleftrightarrow>
     pairwise_disjoint xs \<and> pairwise_disjoint ys \<and> (\<forall>p \<in> set xs. \<forall>q \<in> set ys. \<not> overlaps p q)"
  by (induction xs) auto

lemma selected_spans_Cons:
  "selected_spans (e # es) = (if selected e then positions e @ selected_spans es else selected_spans es)"
  by (simp add: selected_spans_def)

lemma all_spans_Cons: "all_spans (e # es) = positions e @ all_spans es"
  by (simp add: all_spans_def)

lemma selected_spans_append:
  "selected_spans (es @ fs) = selected_spans es @ selected_spans fs"
  by (simp add: selected_spans_def)

lemma selected_spans_map_keep:
  assumes "\<And>e. selected (f e) = selected e" and "\<And>e. positions (f e) = positions e"
  shows "selected_spans (map f es) = selected_spans es"
  by (induction es) (simp_all add: selected_spans_def assms)

lemma all_spans_map_keep:
  assumes "\<And>e. positions (f e) = positions e"
  shows "all_spans (map f es) = all_spans es"
  by (induction es) (simp_all add: all_spans_def assms)

lemma set_selected_spans_subset: "set (selected_spans es) \<subseteq> set (all_spans es)"
  by (auto simp: selected_spans_def all_spans_def)

lemma set_selected_spans_filter: "set (selected_spans (filter P es)) \<subseteq> set (selected_spans es)"
  by (auto simp: selected_spans_def)

lemma pairwise_disjoint_selected_of_all:
  "pairwise_disjoint (all_spans es) \<Longrightarrow> pairwise_disjoint (selected_spans es)"
proof (induction es)
  case Nil
  show ?case by (simp add: selected_spans_def)
next
  case (Cons e es)
  from Cons.prems have here: "pairwise_disjoint (positions e)"
    and rest: "pairwise_disjoint (all_spans es)"
    and cross: "\<forall>p \<in> set (positions e). \<forall>q \<in> set (all_spans es). \<not> overlaps p q"
    by (simp_all add: all_spans_Cons pairwise_disjoint_append)
  from cross set_selected_spans_subset [of es]
  have "\<forall>p \<in> set (positions e). \<forall>q \<in> set (selected_spans es). \<not> overlaps p q"
    by blast
  with here Cons.IH [OF rest] show ?case
    by (simp add: selected_spans_Cons pairwise_disjoint_append)
qed

lemma pairwise_disjoint_selected_filter:
  "pairwise_disjoint (selected_spans es) \<Longrightarrow> pairwise_disjoint (selected_spans (filter P es))"
proof (induction es)
  case Nil
  show ?case by (simp add: selected_spans_def)
next
  case (Cons e es)
  show ?case
  proof (cases "selected e")
    case False
    with Cons show ?thesis by (simp add: selected_spans_Cons)
  next
    case True
    with Cons.prems have here: "pairwise_disjoint (positions e)"
      and rest: "pairwise_disjoint (selected_spans es)"
      and cross: "\<forall>p \<in> set (positions e). \<forall>q \<in> set (selected_spans es). \<not> overlaps p q"
      by (simp_all add: selected_spans_Cons pairwise_disjoint_append)
    from cross set_selected_spans_filter [of P es]
    have "\<forall>p \<in> set (positions e). \<forall>q \<in> set (selected_spans (filter P es)). \<not> overlaps p q"
      by blast
    with here Cons.IH [OF rest] True show ?thesis
      by (simp add: selected_spans_Cons pairwise_disjoint_append)
  qed
qed

lemma replacement_update_keeps_spans:
  "selected_spans (map (\<lambda>entity. if P entity then entity\<lparr>replacement := v\<rparr> else entity) es)
     = selected_spans es"
  by (rule selected_spans_map_keep) simp_all

lemma toggle_keeps_all_spans:
  "all_spans (map (\<lambda>entity. if P entity then entity\<lparr>selected := \<not> selected entity\<rparr> else entity) es)
     = all_spans es"
  by (rule all_spans_map_keep) simp

subsection \<open>Auxiliary facts about trimming and grouped replacement\<close>

lemma trim_Nil: "trim [] = []"
  by (simp add: trim_def)

lemma trim_eq_Nil: "trim s = [] \<longleftrightarrow> (\<forall>c \<in> set s. isWhiteSpace c)"
proof -
  have inner: "dropWhile isWhiteSpace (rev (dropWhile isWhiteSpace s)) = []
          \<longleftrightarrow> dropWhile isWhiteSpace s = []"
  proof (cases "dropWhile isWhiteSpace s")
    case Nil
    show ?thesis unfolding Nil by simp
  next
    case (Cons c cs)
    then have "\<not> isWhiteSpace c"
      using hd_dropWhile [of isWhiteSpace s] by simp
    moreover from Cons have "c \<in> set (rev (dropWhile isWhiteSpace s))"
      by simp
    ultimately have "dropWhile isWhiteSpace (rev (dropWhile isWhiteSpace s)) \<noteq> []"
      unfolding dropWhile_eq_Nil_conv by blast
    moreover have "dropWhile isWhiteSpace s \<noteq> []"
      unfolding Cons by simp
    ultimately show ?thesis
      by blast
  qed
  have "trim s = [] \<longleftrightarrow> dropWhile isWhiteSpace (rev (dropWhile isWhiteSpace s)) = []"
    by (simp add: trim_def)
  also have "\<dots> \<longleftrightarrow> dropWhile isWhiteSpace s = []"
    by (rule inner)
  also have "\<dots> \<longleftrightarrow> (\<forall>c \<in> set s. isWhiteSpace c)"
    by (rule dropWhile_eq_Nil_conv)
  finally show ?thesis .
qed

lemma replaced_exactly_map:
  "replaced_exactly ids v es
     (map (\<lambda>entity. if eid entity \<in> set ids then entity\<lparr>replacement := v\<rparr> else entity) es)"
  by (simp add: replaced_exactly_def list_all2_map2 list_all2_same)

lemma replaced_exactly_ids:
  "replaced_exactly ids v es es' \<Longrightarrow> map eid es' = map eid es"
  unfolding replaced_exactly_def
  by (induction es es' rule: list_all2_induct) auto

lemma replaced_exactly_length:
  "replaced_exactly ids v es es' \<Longrightarrow> length es' = length es"
  by (simp add: replaced_exactly_def list_all2_lengthD)

subsection \<open>Selected spans stay disjoint\<close>

text \<open>
  C1 (amended). From a state in which the spans of the selected entities are pairwise
  non-overlapping, editing a replacement, deleting an entity and grouping (in both versions
  of each) lead to a state with the same property. Toggling a selection does so when the
  spans of all entities, selected or not, are pairwise non-overlapping, and keeps that too.
  Manual insertion tests nothing: its result has the property exactly when the new span
  overlaps no span of an entity that is selected already.
\<close>

theorem store_operations_selection_disjoint:
  assumes "selection_disjoint st"
  shows "selection_disjoint (updateEntityReplacement i v st)
    \<and> (\<forall>st'. updateEntityReplacement_guide i v st = Inr st' \<longrightarrow> selection_disjoint st')
    \<and> selection_disjoint (deleteEntity c i st)
    \<and> selection_disjoint (deleteEntity_guide c i st)
    \<and> (\<forall>st'. createGroup g st = Inr st' \<longrightarrow> selection_disjoint st')
    \<and> (\<forall>st'. createGroup_guide g st = Inr st' \<longrightarrow> selection_disjoint st')
    \<and> (all_disjoint st \<longrightarrow>
          selection_disjoint (toggleEntity i st) \<and> all_disjoint (toggleEntity i st))
    \<and> (selection_disjoint (addManualEntity now txt typ repl s e st) \<longleftrightarrow>
          (\<forall>q \<in> set (selected_spans (entities st)). \<not> overlaps q \<lparr>start = s, end_pos = e\<rparr>))"
proof -
  from assms have inv: "pairwise_disjoint (selected_spans (entities st))"
    by (simp add: selection_disjoint_def)
  have upd: "selection_disjoint (updateEntityReplacement i v st)"
    using inv
    by (simp add: selection_disjoint_def updateEntityReplacement_def replacement_update_keeps_spans)
  have upd_guide:
    "\<forall>st'. updateEntityReplacement_guide i v st = Inr st' \<longrightarrow> selection_disjoint st'"
    using inv
    by (auto simp: selection_disjoint_def updateEntityReplacement_guide_def
        replacement_update_keeps_spans split: if_splits)
  have del: "selection_disjoint (deleteEntity c i st)"
    using inv pairwise_disjoint_selected_filter [of "entities st"]
    by (simp add: selection_disjoint_def deleteEntity_def)
  have del_guide: "selection_disjoint (deleteEntity_guide c i st)"
    using inv pairwise_disjoint_selected_filter [of "entities st"]
    by (simp add: selection_disjoint_def deleteEntity_guide_def)
  have grp: "\<forall>st'. createGroup g st = Inr st' \<longrightarrow> selection_disjoint st'"
    using inv
    by (auto simp: selection_disjoint_def createGroup_def replacement_update_keeps_spans
        split: if_splits option.splits)
  have grp_guide: "\<forall>st'. createGroup_guide g st = Inr st' \<longrightarrow> selection_disjoint st'"
    using inv
    by (auto simp: selection_disjoint_def createGroup_guide_def replacement_update_keeps_spans
        split: if_splits option.splits)
  have tog: "all_disjoint st \<longrightarrow>
      selection_disjoint (toggleEntity i st) \<and> all_disjoint (toggleEntity i st)"
  proof
    assume "all_disjoint st"
    then have "pairwise_disjoint (all_spans (entities (toggleEntity i st)))"
      by (simp add: all_disjoint_def toggleEntity_def toggle_keeps_all_spans)
    then show "selection_disjoint (toggleEntity i st) \<and> all_disjoint (toggleEntity i st)"
      by (simp add: selection_disjoint_def all_disjoint_def pairwise_disjoint_selected_of_all)
  qed
  have add: "selection_disjoint (addManualEntity now txt typ repl s e st) \<longleftrightarrow>
      (\<forall>q \<in> set (selected_spans (entities st)). \<not> overlaps q \<lparr>start = s, end_pos = e\<rparr>)"
    using inv
    by (simp add: selection_disjoint_def addManualEntity_def selected_spans_append
        selected_spans_Cons pairwise_disjoint_append selected_spans_def [of "[]"])
  from upd upd_guide del del_guide grp grp_guide tog add show ?thesis
    by blast
qed

theorem store_operations_selection_disjoint_witness:
  "selection_disjoint ex_app \<and> all_disjoint ex_app
   \<and> selection_disjoint (updateEntityReplacement [0x31] [0x58] ex_app)
   \<and> selection_disjoint (deleteEntity True [0x32] ex_app)
   \<and> selection_disjoint (deleteEntity_guide True [0x32] ex_app)
   \<and> selection_disjoint (toggleEntity [0x32] ex_app)
   \<and> selection_disjoint (addManualEntity ex_now [0x20] person [0x58] 2 3 ex_app)
   \<and> \<not> selection_disjoint (addManualEntity ex_now [0x62, 0x20] person [0x58] 1 3 ex_app)"
proof -
  have h: "selection_disjoint ex_app"
    by (simp add: selection_disjoint_def selected_spans_def ex_app_def ex_ab_def ex_cd_def)
  have a: "all_disjoint ex_app"
    by (simp add: all_disjoint_def all_spans_def overlaps_def ex_app_def ex_ab_def ex_cd_def)
  have sp: "selected_spans (entities ex_app) = [\<lparr>start = 0, end_pos = 2\<rparr>]"
    by (simp add: selected_spans_def ex_app_def ex_ab_def ex_cd_def)
  show ?thesis
    using h a
      store_operations_selection_disjoint [OF h, of "[0x31]" "[0x58]" True None ex_now "[0x20]" person "[0x58]" 2 3]
      store_operations_selection_disjoint [OF h, of "[0x32]" "[0x58]" True None ex_now "[0x62, 0x20]" person "[0x58]" 1 3]
    by (simp add: sp overlaps_def)
qed

text \<open>
  As stated the claim fails twice. A manual entity at \<open>[1, 3)\<close> is accepted next to the
  selected \<open>[0, 2)\<close>. And once that entity has been deselected, the selected spans are
  disjoint again, yet one more toggle brings the overlap back.
\<close>

theorem selection_disjoint_counterexample:
  "selection_disjoint ex_app
   \<and> \<not> selection_disjoint (addManualEntity ex_now [0x62, 0x20] person [0x58] 1 3 ex_app)
   \<and> selection_disjoint (toggleEntity ex_now ex_manual)
   \<and> \<not> selection_disjoint (toggleEntity ex_now (toggleEntity ex_now ex_manual))"
  by (simp add: selection_disjoint_def selected_spans_def overlaps_def toggleEntity_def
      ex_manual_def addManualEntity_def ex_now_def ex_app_def ex_ab_def ex_cd_def)

subsection \<open>Manual insertion\<close>

text \<open>
  C2 (amended). Manual insertion has no validation and no failure: for every document,
  entity set and arguments it appends one entity at the end of the entity set, leaves the
  entities already there as they were and in place, and touches neither the grouping
  selection nor the document.
\<close>

theorem addManualEntity_always_appends:
  "length (entities (addManualEntity now txt typ repl s e st)) = Suc (length (entities st))
   \<and> take (length (entities st)) (entities (addManualEntity now txt typ repl s e st))
       = entities st
   \<and> selectedEntities (addManualEntity now txt typ repl s e st) = selectedEntities st
   \<and> document (addManualEntity now txt typ repl s e st) = document st"
  by (simp add: addManualEntity_def)

text \<open>
  As stated the claim fails: the span \<open>[4, 1)\<close> with the text \<^verbatim>\<open>"z"\<close> is not valid for the
  document \<^verbatim>\<open>"ab cd"\<close>, and the entity set grows all the same.
\<close>

theorem addManualEntity_unvalidated_counterexample:
  "document ex_app = Some ex_doc
   \<and> \<not> manual_span_valid (content ex_doc) (entities ex_app) [0x7A] 4 1
   \<and> entities (addManualEntity ex_now [0x7A] person [0x58] 4 1 ex_app) \<noteq> entities ex_app
   \<and> length (entities (addManualEntity ex_now [0x7A] person [0x58] 4 1 ex_app)) = 3"
  by (simp add: manual_span_valid_def addManualEntity_def ex_app_def)

text \<open>
  C6. The entity created by manual insertion is the last one of the new entity set; its
  source is \<open>MANUAL\<close>, its confidence 1, it is selected, and it has exactly one position,
  \<open>[start, end)\<close>. Text, type, replacement and id are the ones passed in.
\<close>

theorem addManualEntity_creates_manual_entity:
  "entities (addManualEntity now txt typ repl s e st)
     = entities st @ [last (entities (addManualEntity now txt typ repl s e st))]
   \<and> source (last (entities (addManualEntity now txt typ repl s e st))) = MANUAL
   \<and> confidence (last (entities (addManualEntity now txt typ repl s e st))) = 1
   \<and> selected (last (entities (addManualEntity now txt typ repl s e st)))
   \<and> positions (last (entities (addManualEntity now txt typ repl s e st)))
       = [\<lparr>start = s, end_pos = e\<rparr>]
   \<and> etext (last (entities (addManualEntity now txt typ repl s e st))) = txt
   \<and> etype (last (entities (addManualEntity now txt typ repl s e st))) = typ
   \<and> replacement (last (entities (addManualEntity now txt typ repl s e st))) = repl
   \<and> eid (last (entities (addManualEntity now txt typ repl s e st))) = now"
  by (simp add: addManualEntity_def)

subsection \<open>Editing a replacement\<close>

text \<open>
  The revised \<open>updateEntityReplacement\<close> of the guide does what the contract asks: an
  empty or blank value is refused and nothing changes; any other value is stored, trimmed,
  on exactly the entities with the given id, and nothing else changes.
\<close>

lemma updateEntityReplacement_guide_validates:
  "((v = [] \<or> (\<forall>c \<in> set v. isWhiteSpace c)) \<longrightarrow>
       updateEntityReplacement_guide i v st = Inl EmptyReplacement)
   \<and> (\<not> (\<forall>c \<in> set v. isWhiteSpace c) \<longrightarrow>
       (\<exists>st'. updateEntityReplacement_guide i v st = Inr st'
          \<and> replaced_exactly [i] (trim v) (entities st) (entities st')
          \<and> selectedEntities st' = selectedEntities st \<and> document st' = document st))"
  by (auto simp: updateEntityReplacement_guide_def trim_eq_Nil replaced_exactly_def
      list_all2_map2 list_all2_same)

text \<open>
  The first \<open>updateEntityReplacement\<close> stores whatever it is given on the entities with
  the given id and changes nothing else.
\<close>

lemma updateEntityReplacement_frame:
  "replaced_exactly [i] v (entities st) (entities (updateEntityReplacement i v st))
   \<and> selectedEntities (updateEntityReplacement i v st) = selectedEntities st
   \<and> document (updateEntityReplacement i v st) = document st"
  by (simp add: updateEntityReplacement_def replaced_exactly_def list_all2_map2 list_all2_same)

text \<open>
  C3. The first \<open>updateEntityReplacement\<close> has no check: given the empty string, or a
  single space, for the id \<^verbatim>\<open>"1"\<close> it stores that value as the replacement of the entity,
  where the revised version refuses both.
\<close>

theorem updateEntityReplacement_accepts_blank:
  "entities (updateEntityReplacement [0x31] [] ex_app) = [ex_ab\<lparr>replacement := []\<rparr>, ex_cd]
   \<and> entities (updateEntityReplacement [0x31] [0x20] ex_app)
       = [ex_ab\<lparr>replacement := [0x20]\<rparr>, ex_cd]
   \<and> replacement ex_ab \<noteq> []
   \<and> updateEntityReplacement_guide [0x31] [] ex_app = Inl EmptyReplacement
   \<and> updateEntityReplacement_guide [0x31] [0x20] ex_app = Inl EmptyReplacement"
  by (simp add: updateEntityReplacement_def updateEntityReplacement_guide_def trim_def
      isWhiteSpace_def ex_app_def ex_ab_def ex_cd_def)

subsection \<open>Grouping\<close>

text \<open>
  C4 (amended). With at least two ticked ids, \<open>createGroup\<close> sets the shared replacement on
  exactly the entities whose id is ticked, changes nothing else in the entity set and
  creates no entity and no id: the first version for every non-empty answer, stored as
  typed; the revised version for every answer that has a character other than white
  space, stored trimmed. The call fails, that is, it is rejected and nothing changes, when
  the answer is empty (or the prompt cancelled) or when fewer than two ids are ticked; the
  revised version fails as well on every answer made of white space only.
\<close>

theorem createGroup_shared_replacement:
  "(2 \<le> length (selectedEntities st) \<and> g \<noteq> [] \<longrightarrow>
      (\<exists>st'. createGroup (Some g) st = Inr st'
         \<and> replaced_exactly (selectedEntities st) g (entities st) (entities st')
         \<and> length (entities st') = length (entities st)
         \<and> map eid (entities st') = map eid (entities st)
         \<and> document st' = document st))
   \<and> (2 \<le> length (selectedEntities st) \<and> (\<exists>c \<in> set g. \<not> isWhiteSpace c) \<longrightarrow>
      (\<exists>st'. createGroup_guide (Some g) st = Inr st'
         \<and> replaced_exactly (selectedEntities st) (trim g) (entities st) (entities st')
         \<and> length (entities st') = length (entities st)
         \<and> map eid (entities st') = map eid (entities st)
         \<and> document st' = document st))
   \<and> (2 \<le> length (selectedEntities st) \<and> (\<forall>c \<in> set g. isWhiteSpace c) \<longrightarrow>
      createGroup_guide (Some g) st = Inl NoGroupName)
   \<and> (2 \<le> length (selectedEntities st) \<longrightarrow>
      createGroup (Some []) st = Inl NoGroupName
      \<and> createGroup None st = Inl NoGroupName
      \<and> createGroup_guide None st = Inl NoGroupName)
   \<and> (length (selectedEntities st) < 2 \<longrightarrow>
      createGroup r st = Inl NeedTwoEntities
      \<and> createGroup_guide r st = Inl NeedTwoEntities)"
proof -
  let ?grouped = "\<lambda>v. map (\<lambda>entity. if eid entity \<in> set (selectedEntities st)
                                     then entity\<lparr>replacement := v\<rparr> else entity) (entities st)"
  have shape: "replaced_exactly (selectedEntities st) v (entities st) (?grouped v)
      \<and> length (?grouped v) = length (entities st)
      \<and> map eid (?grouped v) = map eid (entities st)" for v
    using replaced_exactly_map [of "selectedEntities st" v "entities st"]
    by (simp add: replaced_exactly_ids)
  have first: "\<exists>st'. createGroup (Some g) st = Inr st'
         \<and> replaced_exactly (selectedEntities st) g (entities st) (entities st')
         \<and> length (entities st') = length (entities st)
         \<and> map eid (entities st') = map eid (entities st)
         \<and> document st' = document st"
    if "2 \<le> length (selectedEntities st) \<and> g \<noteq> []"
  proof -
    from that have "createGroup (Some g) st
        = Inr (st\<lparr>entities := ?grouped g, selectedEntities := []\<rparr>)"
      by (simp add: createGroup_def)
    with shape [of g] show ?thesis
      by simp
  qed
  have revised: "\<exists>st'. createGroup_guide (Some g) st = Inr st'
         \<and> replaced_exactly (selectedEntities st) (trim g) (entities st) (entities st')
         \<and> length (entities st') = length (entities st)
         \<and> map eid (entities st') = map eid (entities st)
         \<and> document st' = document st"
    if a: "2 \<le> length (selectedEntities st) \<and> (\<exists>c \<in> set g. \<not> isWhiteSpace c)"
  proof -
    from a have t: "trim g \<noteq> []"
      by (simp add: trim_eq_Nil)
    then have "g \<noteq> []"
      using trim_Nil by auto
    with a t have "createGroup_guide (Some g) st
        = Inr (st\<lparr>entities := ?grouped (trim g), selectedEntities := []\<rparr>)"
      by (simp add: createGroup_guide_def)
    with shape [of "trim g"] show ?thesis
      by simp
  qed
  have blank: "createGroup_guide (Some g) st = Inl NoGroupName"
    if b: "2 \<le> length (selectedEntities st) \<and> (\<forall>c \<in> set g. isWhiteSpace c)"
  proof -
    from b have "trim g = []"
      by (simp add: trim_eq_Nil)
    with b show ?thesis
      by (simp add: createGroup_guide_def)
  qed
  have empty: "createGroup (Some []) st = Inl NoGroupName
      \<and> createGroup None st = Inl NoGroupName
      \<and> createGroup_guide None st = Inl NoGroupName"
    if "2 \<le> length (selectedEntities st)"
    using that by (simp add: createGroup_def createGroup_guide_def)
  have few: "createGroup r st = Inl NeedTwoEntities
      \<and> createGroup_guide r st = Inl NeedTwoEntities"
    if "length (selectedEntities st) < 2"
    using that by (simp add: createGroup_def createGroup_guide_def)
  from first revised blank empty few show ?thesis
    by blast
qed

theorem createGroup_shared_replacement_witness:
  "createGroup (Some [0x58]) ex_app
     = Inr \<lparr>entities = [ex_ab\<lparr>replacement := [0x58]\<rparr>, ex_cd\<lparr>replacement := [0x58]\<rparr>],
            selectedEntities = [], document = Some ex_doc\<rparr>
   \<and> createGroup_guide (Some [0x58]) ex_app = createGroup (Some [0x58]) ex_app
   \<and> replaced_exactly (selectedEntities ex_app) [0x58] (entities ex_app)
       [ex_ab\<lparr>replacement := [0x58]\<rparr>, ex_cd\<lparr>replacement := [0x58]\<rparr>]
   \<and> createGroup_guide (Some [0x20, 0x09]) ex_app = Inl NoGroupName
   \<and> createGroup_guide (Some []) ex_app = Inl NoGroupName
   \<and> createGroup (Some []) ex_app = Inl NoGroupName
   \<and> createGroup None ex_app = Inl NoGroupName
   \<and> createGroup_guide None ex_app = Inl NoGroupName
   \<and> createGroup (Some [0x58]) (ex_app\<lparr>selectedEntities := [[0x31]]\<rparr>) = Inl NeedTwoEntities
   \<and> createGroup_guide (Some [0x58]) (ex_app\<lparr>selectedEntities := [[0x31]]\<rparr>)
       = Inl NeedTwoEntities"
  using createGroup_shared_replacement [of ex_app "[0x58]" "Some []"]
    createGroup_shared_replacement [of ex_app "[0x20, 0x09]" "Some []"]
    createGroup_shared_replacement [of ex_app "[]" "Some []"]
    createGroup_shared_replacement [of "ex_app\<lparr>selectedEntities := [[0x31]]\<rparr>" "[0x58]" "Some [0x58]"]
  by (simp add: createGroup_def createGroup_guide_def trim_def isWhiteSpace_def
      replaced_exactly_def ex_app_def ex_ab_def ex_cd_def)

text \<open>
  As stated the claim fails on the revised version: the non-empty answer \<^verbatim>\<open>" X"\<close> is
  stored as \<^verbatim>\<open>"X"\<close>, and the non-empty answer \<^verbatim>\<open>" "\<close> is refused.
\<close>

theorem createGroup_guide_trims_counterexample:
  "2 \<le> length (selectedEntities ex_app)
   \<and> createGroup_guide (Some [0x20, 0x58]) ex_app
       = Inr \<lparr>entities = [ex_ab\<lparr>replacement := [0x58]\<rparr>, ex_cd\<lparr>replacement := [0x58]\<rparr>],
              selectedEntities = [], document = Some ex_doc\<rparr>
   \<and> \<not> replaced_exactly (selectedEntities ex_app) [0x20, 0x58] (entities ex_app)
         [ex_ab\<lparr>replacement := [0x58]\<rparr>, ex_cd\<lparr>replacement := [0x58]\<rparr>]
   \<and> createGroup_guide (Some [0x20]) ex_app = Inl NoGroupName"
  by (simp add: createGroup_guide_def trim_def isWhiteSpace_def replaced_exactly_def
      ex_app_def ex_ab_def ex_cd_def)

subsection \<open>Rewriting with nothing selected\<close>

text \<open>
  C5. If no entity is selected, the rewriter returns the original text exactly, with an
  empty change log.
\<close>

theorem rewrite_nothing_selected:
  assumes "\<forall>e \<in> set es. \<not> selected e"
  shows "rewrite originalText es = Inr (originalText, [])"
proof -
  from assms have "filter selected es = []"
    by (simp add: filter_empty_conv)
  then have "collect_triples es = []"
    by (simp add: collect_triples_def)
  then show ?thesis
    by (simp add: rewrite_def)
qed

theorem rewrite_nothing_selected_witness:
  "\<not> selected ex_cd \<and> \<not> selected (ex_ab\<lparr>selected := False\<rparr>)
   \<and> rewrite (content ex_doc) [ex_cd, ex_ab\<lparr>selected := False\<rparr>] = Inr (content ex_doc, [])"
proof -
  have h: "\<forall>e \<in> set [ex_cd, ex_ab\<lparr>selected := False\<rparr>]. \<not> selected e"
    by (simp add: ex_cd_def)
  show ?thesis
    using h rewrite_nothing_selected [OF h, of "content ex_doc"] by simp
qed

text \<open>With both sample entities selected the rewriter substitutes both spans.\<close>

lemma rewrite_sample:
  "rewrite (content ex_doc) [ex_ab, ex_cd\<lparr>selected := True\<rparr>]
     = Inr ([0x5B, 0x54, 0x5D, 0x20, 0x5B, 0x50, 0x5D],
            [(\<lparr>start = 0, end_pos = 2\<rparr>, [0x5B, 0x54, 0x5D]),
             (\<lparr>start = 3, end_pos = 5\<rparr>, [0x5B, 0x50, 0x5D])])"
  by (simp add: rewrite_def collect_triples_def ex_doc_def ex_ab_def ex_cd_def
      triple_span_def overlaps_def)

lemma rewrite_sample_overlap:
  "rewrite (content ex_doc) (entities ex_manual) = Inl OverlapError"
  by (simp add: rewrite_def collect_triples_def ex_manual_def addManualEntity_def ex_app_def
      ex_ab_def ex_cd_def triple_span_def overlaps_def)

subsection \<open>Deleting an entity\<close>

text \<open>
  C7 (amended). Once the operator has accepted the confirmation dialog, \<open>deleteEntity\<close>
  removes exactly the entities with the given id: none with that id is left, and the
  others stay, in their order. When the id is absent this is a no-op on the entity set,
  never an error. When the dialog is declined nothing changes at all. The revised version
  does the same to the entity set and also drops the id from the grouping selection.
\<close>

theorem deleteEntity_removes_exactly:
  "entities (deleteEntity True i st) = filter (\<lambda>e. eid e \<noteq> i) (entities st)
   \<and> entities (deleteEntity_guide True i st) = entities (deleteEntity True i st)
   \<and> i \<notin> eid ` set (entities (deleteEntity True i st))
   \<and> (\<forall>e \<in> set (entities st). eid e \<noteq> i \<longrightarrow> e \<in> set (entities (deleteEntity True i st)))
   \<and> (i \<notin> eid ` set (entities st) \<longrightarrow>
        deleteEntity True i st = st \<and> entities (deleteEntity_guide True i st) = entities st)
   \<and> deleteEntity False i st = st
   \<and> deleteEntity_guide False i st = st
   \<and> selectedEntities (deleteEntity True i st) = selectedEntities st
   \<and> selectedEntities (deleteEntity_guide True i st)
        = filter (\<lambda>j. j \<noteq> i) (selectedEntities st)"
proof -
  have absent: "filter (\<lambda>e. eid e \<noteq> i) (entities st) = entities st"
    if "i \<notin> eid ` set (entities st)"
    using that by (auto simp: filter_id_conv)
  show ?thesis
    by (auto simp: deleteEntity_def deleteEntity_guide_def absent)
qed

theorem deleteEntity_removes_exactly_witness:
  "entities (deleteEntity True [0x31] ex_app) = [ex_cd]
   \<and> entities (deleteEntity_guide True [0x31] ex_app) = [ex_cd]
   \<and> selectedEntities (deleteEntity_guide True [0x31] ex_app) = [[0x32]]
   \<and> [0x33] \<notin> eid ` set (entities ex_app)
   \<and> deleteEntity True [0x33] ex_app = ex_app
   \<and> deleteEntity False [0x31] ex_app = ex_app"
  using deleteEntity_removes_exactly [of "[0x31]" ex_app]
    deleteEntity_removes_exactly [of "[0x33]" ex_app]
  by (simp add: deleteEntity_guide_def ex_app_def ex_ab_def ex_cd_def)

text \<open>
  As stated the claim fails when the operator declines the dialog: the entity with id
  \<^verbatim>\<open>"1"\<close> is in the entity set before the call and still there after it.
\<close>

theorem deleteEntity_declined_counterexample:
  "eid ex_ab = [0x31] \<and> ex_ab \<in> set (entities ex_app)
   \<and> ex_ab \<in> set (entities (deleteEntity False [0x31] ex_app))
   \<and> ex_ab \<in> set (entities (deleteEntity_guide False [0x31] ex_app))"
  by (simp add: deleteEntity_def deleteEntity_guide_def ex_app_def ex_ab_def)

subsection \<open>Selection toggling\<close>

text \<open>
  C8. For every entity set and every id present in it, toggling flips the \<open>selected\<close> flag
  of the entity with that id and changes nothing else: its id, text, type, source,
  confidence, positions and replacement stay as they were, every other entity is unchanged,
  no entity is added or removed, and the span lists are the same.
\<close>

theorem toggleEntity_frame:
  assumes "i \<in> eid ` set (entities st)"
  shows "length (entities (toggleEntity i st)) = length (entities st)
    \<and> (\<forall>k < length (entities st).
          let e = entities st ! k; e' = entities (toggleEntity i st) ! k
          in (eid e = i \<longrightarrow> selected e' = (\<not> selected e))
           \<and> (eid e \<noteq> i \<longrightarrow> e' = e)
           \<and> eid e' = eid e \<and> etext e' = etext e \<and> etype e' = etype e
           \<and> source e' = source e \<and> confidence e' = confidence e
           \<and> positions e' = positions e \<and> replacement e' = replacement e)
    \<and> (\<exists>k < length (entities st). eid (entities st ! k) = i
          \<and> selected (entities (toggleEntity i st) ! k) = (\<not> selected (entities st ! k)))
    \<and> all_spans (entities (toggleEntity i st)) = all_spans (entities st)
    \<and> selectedEntities (toggleEntity i st) = selectedEntities st
    \<and> document (toggleEntity i st) = document st"
proof -
  from assms obtain k where k: "k < length (entities st)" "eid (entities st ! k) = i"
    by (auto simp: in_set_conv_nth)
  then have flipped: "\<exists>k < length (entities st). eid (entities st ! k) = i
      \<and> selected (entities (toggleEntity i st) ! k) = (\<not> selected (entities st ! k))"
    by (auto simp: toggleEntity_def)
  have spans: "all_spans (entities (toggleEntity i st)) = all_spans (entities st)"
    by (simp add: toggleEntity_def toggle_keeps_all_spans)
  from flipped spans show ?thesis
    by (simp add: toggleEntity_def Let_def)
qed

theorem toggleEntity_frame_witness:
  "[0x32] \<in> eid ` set (entities ex_app)
   \<and> entities (toggleEntity [0x32] ex_app) = [ex_ab, ex_cd\<lparr>selected := True\<rparr>]
   \<and> all_spans (entities (toggleEntity [0x32] ex_app)) = all_spans (entities ex_app)"
proof -
  have h: "[0x32] \<in> eid ` set (entities ex_app)"
    by (simp add: ex_app_def ex_ab_def ex_cd_def)
  show ?thesis
    using h toggleEntity_frame [OF h]
    by (simp add: toggleEntity_def ex_app_def ex_ab_def ex_cd_def)
qed

subsection \<open>Document generation\<close>

text \<open>
  C9. The revised \<open>generateDocument\<close> sends no request when the entity list is empty or when
  no entity is selected: it returns early with the matching alert. Whenever it does send a
  request, the request carries the whole entity list and at least one entity in it is
  selected.
\<close>

theorem generateDocument_guide_guards:
  "(entities st = [] \<longrightarrow> generateDocument_guide st = Inl NoEntities)
   \<and> (entities st \<noteq> [] \<and> (\<forall>e \<in> set (entities st). \<not> selected e) \<longrightarrow>
        generateDocument_guide st = Inl NoneSelected)
   \<and> (\<forall>req. generateDocument_guide st = Inr req \<longrightarrow>
        req_entities req = entities st \<and> (\<exists>e \<in> set (req_entities req). selected e))"
proof -
  have none: "length (filter selected (entities st)) = 0 \<longleftrightarrow>
      (\<forall>e \<in> set (entities st). \<not> selected e)"
    by (simp add: filter_empty_conv)
  show ?thesis
    unfolding generateDocument_guide_def Let_def none
    by (auto split: option.splits)
qed

theorem generateDocument_guide_guards_witness:
  "generateDocument_guide (ex_app\<lparr>entities := []\<rparr>) = Inl NoEntities
   \<and> generateDocument_guide (ex_app\<lparr>entities := [ex_cd]\<rparr>) = Inl NoneSelected
   \<and> generateDocument_guide ex_app
       = Inr \<lparr>req_entities = [ex_ab, ex_cd], original_content = content ex_doc,
              req_filename = [0x61] @ anonymise_suffix\<rparr>
   \<and> selected ex_ab"
  using generateDocument_guide_guards [of "ex_app\<lparr>entities := []\<rparr>"]
    generateDocument_guide_guards [of "ex_app\<lparr>entities := [ex_cd]\<rparr>"]
    generateDocument_guide_guards [of ex_app]
  by (simp add: generateDocument_guide_def output_filename_def ex_app_def ex_doc_def
      ex_ab_def ex_cd_def)

subsection \<open>The select-all button\<close>

text \<open>
  C10. The select-all button gives every entity the same \<open>selected\<close> value: false if every
  entity was selected, true otherwise. Afterwards all entities are selected or none is, and
  no other field of any entity has changed; no entity is added or removed.
\<close>

theorem selectAll_uniform:
  "length (entities (selectAll st)) = length (entities st)
   \<and> (\<forall>k < length (entities st).
        entities (selectAll st) ! k
          = (entities st ! k)\<lparr>selected := \<not> (\<forall>e \<in> set (entities st). selected e)\<rparr>)
   \<and> ((\<forall>e \<in> set (entities (selectAll st)). selected e)
        \<or> (\<forall>e \<in> set (entities (selectAll st)). \<not> selected e))
   \<and> selectedEntities (selectAll st) = selectedEntities st
   \<and> document (selectAll st) = document st"
  by (auto simp: selectAll_def Let_def list_all_iff)

theorem selectAll_uniform_witness:
  "entities (selectAll ex_app) = [ex_ab, ex_cd\<lparr>selected := True\<rparr>]
   \<and> entities (selectAll (selectAll ex_app))
       = [ex_ab\<lparr>selected := False\<rparr>, ex_cd]
   \<and> entities (selectAll (ex_app\<lparr>entities := []\<rparr>)) = []"
  using selectAll_uniform [of ex_app] selectAll_uniform [of "selectAll ex_app"]
  by (simp add: selectAll_def ex_app_def ex_ab_def ex_cd_def)

end
